theory Spec2Isabelle
  imports Main
begin

section \<open>The Feishu message sender (test\_hijack/clients/cli/feishu.py)\<close>

text \<open>
  The file is laid out as a script that loads two credentials from the environment, builds
  a client of the vendor SDK (\<^verbatim>\<open>lark_oapi\<close>), defines one function, \<^verbatim>\<open>send_text_message\<close>,
  and prints two lines when run directly. Python does not accept the file as it stands:
  the statement of lines 28 to 35 is broken after line 34. The model follows Python. It
  has the statements that would run (the module body and the main block), the text of
  lines 28 to 35, the line structure by which the compiler reads that text, and the run
  of the file, which compiles before it executes. The body of \<^verbatim>\<open>send_text_message\<close> is
  not given a meaning: its first statement is the one the compiler rejects.

  The vendor SDK, \<^verbatim>\<open>dotenv\<close> and the remote service are not part of the repository. What
  the script asks of them is taken as a parameter (the record \<open>vendor\<close>); the objects the
  script builds with the SDK's builders are records of the attributes the script sets.
\<close>

subsection \<open>Objects of the SDK that the script builds or reads\<close>

text \<open>Python objects that are serialised with \<^verbatim>\<open>lark.JSON.marshal\<close>.\<close>

datatype pyobj = PNone | PInt int | PStr string | PDict "(string \<times> pyobj) list"

text \<open>
  The levels the script names: \<^verbatim>\<open>lark.LogLevel.DEBUG\<close> for the client, and the levels of
  \<^verbatim>\<open>lark.logger.info\<close> and \<^verbatim>\<open>lark.logger.error\<close> for the entries it logs.
\<close>

datatype LogLevel = DEBUG | INFO | ERROR

text \<open>A builder starts with every attribute unset; each call of the chain sets one.\<close>

record CreateMessageRequestBody =
  receive_id :: "string option"
  msg_type :: "string option"
  content :: "string option"

record CreateMessageRequest =
  receive_id_type :: "string option"
  request_body :: "CreateMessageRequestBody option"

record Client =
  app_id :: "string option option"
  app_secret :: "string option option"
  log_level :: "LogLevel option"

text \<open>
  The response of \<^verbatim>\<open>client.im.v1.message.create\<close>, with the attributes the script reads:
  \<^verbatim>\<open>success()\<close>, \<^verbatim>\<open>code\<close>, \<^verbatim>\<open>msg\<close>, \<^verbatim>\<open>log_id\<close> and \<^verbatim>\<open>data\<close>.
\<close>

record CreateMessageResponse =
  success :: bool
  code :: int
  msg :: string
  log_id :: string
  data :: pyobj

definition Client_builder :: Client where
  "Client_builder = \<lparr>app_id = None, app_secret = None, log_level = None\<rparr>"

subsection \<open>What the script asks of its collaborators\<close>

text \<open>
  \<^item> \<open>marshal obj indent\<close> is \<^verbatim>\<open>lark.JSON.marshal(obj, indent=...)\<close>;
  \<^item> \<open>message_create c r\<close> is \<^verbatim>\<open>c.im.v1.message.create(r)\<close>: it returns a response
    (\<open>Inr\<close>) or raises an exception of the transport (\<open>Inl\<close>);
  \<^item> \<open>load_dotenv env\<close> is the process environment after \<^verbatim>\<open>load_dotenv()\<close>.
\<close>

record 'e vendor =
  marshal :: "pyobj \<Rightarrow> nat option \<Rightarrow> string"
  message_create :: "Client \<Rightarrow> CreateMessageRequest \<Rightarrow> 'e + CreateMessageResponse"
  load_dotenv :: "(string \<rightharpoonup> string) \<Rightarrow> (string \<rightharpoonup> string)"

subsection \<open>State\<close>

text \<open>The module's global variables once the module body has run.\<close>

record module_state =
  APP_ID :: "string option"
  APP_SECRET :: "string option"
  client :: Client

text \<open>
  What the process does to the outside, in order: the entries handed to \<^verbatim>\<open>lark.logger\<close>,
  the calls of \<^verbatim>\<open>message.create\<close> (the client used and the request), the lines printed,
  the names read with \<^verbatim>\<open>os.getenv\<close> and the clients built.
\<close>

record world =
  logs :: "(LogLevel \<times> string) list"
  created :: "(Client \<times> CreateMessageRequest) list"
  printed :: "nat list list"
  getenv_calls :: "string list"
  clients_built :: "Client list"

subsection \<open>The module body (lines 1 to 18) and the main block (lines 48 to 59)\<close>

text \<open>
  \<^verbatim>\<open>load_dotenv()\<close>, the two \<^verbatim>\<open>os.getenv\<close> calls (\<open>None\<close> for a name that is not set) and
  the client built from them at level \<^verbatim>\<open>DEBUG\<close>. The \<^verbatim>\<open>def\<close> of line 20 binds the
  function and does nothing else.
\<close>

definition module_body ::
  "'e vendor \<Rightarrow> (string \<rightharpoonup> string) \<Rightarrow> world \<Rightarrow> module_state \<times> world" where
  "module_body sdk environ w =
     (let environ1 = load_dotenv sdk environ;
          ident = environ1 ''APP_ID'';
          w1 = w\<lparr>getenv_calls := getenv_calls w @ [''APP_ID'']\<rparr>;
          secret = environ1 ''APP_SECRET'';
          w2 = w1\<lparr>getenv_calls := getenv_calls w1 @ [''APP_SECRET'']\<rparr>;
          c = Client_builder
                \<lparr>app_id := Some ident\<rparr>
                \<lparr>app_secret := Some secret\<rparr>
                \<lparr>log_level := Some DEBUG\<rparr>
      in (\<lparr>APP_ID = ident, APP_SECRET = secret, client = c\<rparr>,
          w2\<lparr>clients_built := clients_built w2 @ [c]\<rparr>))"

text \<open>
  The two strings of lines 57 and 58, as Python has them: sequences of code points.
  Every call of \<^verbatim>\<open>send_text_message\<close> in the block is inside a comment.
\<close>

definition line_57 :: "nat list" where
  "line_57 = [36825, 26159, 19968, 20010, 39134, 20070, 23458, 25143, 31471, 31034, 20363,
     12290]"

definition line_58 :: "nat list" where
  "line_58 = [35831, 22312, 20195, 30721, 20013, 21462, 28040, 27880, 37322, 24182, 22635,
     20837, 27491, 30830, 30340, 32, 114, 101, 99, 101, 105, 118, 101, 95, 105, 100, 95, 116,
     121, 112, 101, 32, 21644, 32, 114, 101, 99, 101, 105, 118, 101, 95, 105, 100, 32, 26469,
     21457, 36865, 28040, 24687, 12290]"

definition main_block :: "world \<Rightarrow> world" where
  "main_block w =
     (let w1 = w\<lparr>printed := printed w @ [line_57]\<rparr>
      in w1\<lparr>printed := printed w1 @ [line_58]\<rparr>)"

section \<open>The file as Python reads it\<close>

text \<open>
  Python compiles a file as a whole before it runs its first statement, and the compiler
  works on logical lines (Language Reference 2.1): a physical line that ends in a backslash
  outside a string and a comment is joined with the next one (2.1.5), and so is a line
  that ends inside parentheses, brackets or braces (2.1.6). Blank lines and lines of only
  a comment are no logical lines (2.1.7). The indentation of a logical
  line is that of its first physical line (2.1.8), and a logical line may be indented
  deeper than the one before it only when that one opens a block with a colon.
\<close>

subsection \<open>Lines 28 to 35 of the file, as they stand\<close>

definition dquote :: string where
  "dquote = [CHR 0x22]"

definition backslash :: char where
  "backslash = CHR 0x5C"

definition request_statement :: "(nat \<times> string) list" where
  "request_statement =
     [(28, ''    request: CreateMessageRequest = CreateMessageRequest.builder() '' @ [backslash]),
      (29, ''        .receive_id_type(receive_id_type) '' @ [backslash]),
      (30, ''        .request_body(CreateMessageRequestBody.builder()''),
      (31, ''                      .receive_id(receive_id)''),
      (32, ''                      .msg_type('' @ dquote @ ''text'' @ dquote @ '')''),
      (33, ''                      .content(lark.JSON.marshal({'' @ dquote @ ''text'' @ dquote
             @ '': message}))''),
      (34, ''                      .build())''),
      (35, ''        .build()'')]"

subsection \<open>Line structure\<close>

text \<open>
  Where the scanner is in a physical line: in code, in a string literal opened by the
  given quote, or behind a backslash in such a literal. (Triple-quoted literals, which
  may span lines, are not scanned; lines 28 to 35 have none.)
\<close>

datatype lex = Code | Literal char | Escaped char

text \<open>
  \<open>scan\<close> reads one physical line from the bracket depth it starts at. It gives the
  depth at the end of the line and whether the line ends in a joining backslash. (A
  closing bracket with none open, an error of its own, leaves the depth at 0.)
\<close>

fun scan :: "lex \<Rightarrow> nat \<Rightarrow> string \<Rightarrow> nat \<times> bool" where
  "scan st depth [] = (depth, False)"
| "scan (Literal q) depth (c # cs) =
     (if c = backslash then scan (Escaped q) depth cs
      else if c = q then scan Code depth cs
      else scan (Literal q) depth cs)"
| "scan (Escaped q) depth (c # cs) = scan (Literal q) depth cs"
| "scan Code depth (c # cs) =
     (if c = CHR ''#'' then (depth, False)
      else if c = backslash \<and> cs = [] then (depth, True)
      else if c = CHR 0x22 \<or> c = CHR 0x27 then scan (Literal c) depth cs
      else if c = CHR ''('' \<or> c = CHR ''['' \<or> c = CHR ''{'' then scan Code (depth + 1) cs
      else if c = CHR '')'' \<or> c = CHR '']'' \<or> c = CHR ''}'' then scan Code (depth - 1) cs
      else scan Code depth cs)"

text \<open>
  A physical line of only spaces, tabs and form feeds, with or without a comment after
  them. Where a logical line would start, such a line is ignored (2.1.7).
\<close>

definition blank_line :: "string \<Rightarrow> bool" where
  "blank_line l =
     (case dropWhile (\<lambda>c. c = CHR '' '' \<or> c = CHR 0x09 \<or> c = CHR 0x0C) l of
        [] \<Rightarrow> True
      | c # _ \<Rightarrow> c = CHR ''#'')"

text \<open>
  The physical lines grouped into logical lines: \<open>cur\<close> holds the lines of the logical line
  being read, \<open>depth\<close> the brackets open at this point.
\<close>

fun logical_lines ::
  "nat \<Rightarrow> (nat \<times> string) list \<Rightarrow> (nat \<times> string) list \<Rightarrow> (nat \<times> string) list list" where
  "logical_lines depth cur [] = (if cur = [] then [] else [cur])"
| "logical_lines depth cur ((n, l) # ls) =
     (if cur = [] \<and> depth = 0 \<and> blank_line l then logical_lines depth cur ls
      else
        (case scan Code depth l of
           (depth', joined) \<Rightarrow>
             if joined \<or> 0 < depth' then logical_lines depth' (cur @ [(n, l)]) ls
             else (cur @ [(n, l)]) # logical_lines 0 [] ls))"

definition indentation :: "(nat \<times> string) list \<Rightarrow> nat" where
  "indentation ll =
     (case ll of [] \<Rightarrow> 0 | (n, l) # _ \<Rightarrow> length (takeWhile (\<lambda>c. c = CHR '' '') l))"

definition first_line :: "(nat \<times> string) list \<Rightarrow> nat" where
  "first_line ll = (case ll of [] \<Rightarrow> 0 | (n, l) # _ \<Rightarrow> n)"

definition opens_block :: "(nat \<times> string) list \<Rightarrow> bool" where
  "opens_block ll =
     (case rev ll of
        [] \<Rightarrow> False
      | (n, l) # _ \<Rightarrow>
          (case rev (filter (\<lambda>c. c \<noteq> CHR '' '') l) of
             [] \<Rightarrow> False
           | c # _ \<Rightarrow> c = CHR '':''))"

datatype py_error = IndentationError nat

text \<open>
  The first logical line that is indented deeper than its predecessor although the
  predecessor opens no block: Python's \<^verbatim>\<open>IndentationError: unexpected indent\<close>, with the
  number of the line. \<open>None\<close> says only that no line is of this kind.
\<close>

fun unexpected_indent ::
  "(nat \<times> string) list \<Rightarrow> (nat \<times> string) list list \<Rightarrow> nat option" where
  "unexpected_indent prev [] = None"
| "unexpected_indent prev (ll # lls) =
     (if indentation prev < indentation ll \<and> \<not> opens_block prev then Some (first_line ll)
      else unexpected_indent ll lls)"

definition compile_request_statement :: "py_error + unit" where
  "compile_request_statement =
     (case logical_lines 0 [] request_statement of
        [] \<Rightarrow> Inr ()
      | ll # lls \<Rightarrow>
          (case unexpected_indent ll lls of
             Some n \<Rightarrow> Inl (IndentationError n)
           | None \<Rightarrow> Inr ()))"

text \<open>
  The statements of the file in order: the module body, then the main block when the
  file runs as a script (\<open>name\<close> is \<^verbatim>\<open>__main__\<close>) and not by import.
\<close>

definition exec_module ::
  "'e vendor \<Rightarrow> string \<Rightarrow> (string \<rightharpoonup> string) \<Rightarrow> world \<Rightarrow> module_state \<times> world" where
  "exec_module sdk name environ w =
     (case module_body sdk environ w of
        (m, w1) \<Rightarrow> (m, if name = ''__main__'' then main_block w1 else w1))"

text \<open>
  Running the file: it is compiled first, and an error of the compiler ends the run
  before any statement. The result is the error or the module's globals.
\<close>

definition run_file ::
  "'e vendor \<Rightarrow> string \<Rightarrow> (string \<rightharpoonup> string) \<Rightarrow> world \<Rightarrow> (py_error + module_state) \<times> world" where
  "run_file sdk name environ w =
     (case compile_request_statement of
        Inl err \<Rightarrow> (Inl err, w)
      | Inr _ \<Rightarrow> (case exec_module sdk name environ w of (m, w1) \<Rightarrow> (Inr m, w1)))"

text \<open>
  A caller of the module: it imports the file and then uses the module, for one to call
  \<^verbatim>\<open>send_text_message\<close>. \<open>use\<close> stands for whatever the caller does with the module once it
  has it; an error raised by the import ends the caller's run before that.
\<close>

definition import_then ::
  "'e vendor \<Rightarrow> string \<Rightarrow> (string \<rightharpoonup> string) \<Rightarrow> (module_state \<Rightarrow> world \<Rightarrow> 'r \<times> world)
     \<Rightarrow> world \<Rightarrow> (py_error + 'r) \<times> world" where
  "import_then sdk name environ use w =
     (case run_file sdk name environ w of
        (Inl err, w1) \<Rightarrow> (Inl err, w1)
      | (Inr m, w1) \<Rightarrow> (case use m w1 of (r, w2) \<Rightarrow> (Inr r, w2)))"

section \<open>Test doubles\<close>

text \<open>
  The mocked collaborators of the spec's tests, for the concrete instances below: a client
  that answers every request with the given response, and one that raises.
\<close>

definition mock_marshal :: "pyobj \<Rightarrow> nat option \<Rightarrow> string" where
  "mock_marshal obj indent =
     (case obj of
        PDict [(k, PStr v)] \<Rightarrow>
          ''{'' @ dquote @ k @ dquote @ '': '' @ dquote @ v @ dquote @ ''}''
      | _ \<Rightarrow> ''null'')"

definition mock_sdk :: "CreateMessageResponse \<Rightarrow> string vendor" where
  "mock_sdk response =
     \<lparr>marshal = mock_marshal, message_create = (\<lambda>c r. Inr response), load_dotenv = (\<lambda>env. env)\<rparr>"

definition raising_sdk :: "string \<Rightarrow> string vendor" where
  "raising_sdk e =
     \<lparr>marshal = mock_marshal, message_create = (\<lambda>c r. Inl e), load_dotenv = (\<lambda>env. env)\<rparr>"

definition bad_request :: CreateMessageResponse where
  "bad_request =
     \<lparr>success = False, code = 400, msg = ''bad request'', log_id = ''abc123'', data = PNone\<rparr>"

definition message_sent :: CreateMessageResponse where
  "message_sent =
     \<lparr>success = True, code = 0, msg = ''success'', log_id = ''abc124'',
      data = PDict [(''message_id'', PStr ''om_1'')]\<rparr>"

definition test_environ :: "string \<rightharpoonup> string" where
  "test_environ = [''APP_ID'' \<mapsto> ''cli_test'', ''APP_SECRET'' \<mapsto> ''secret'']"

definition quiet :: world where
  "quiet = \<lparr>logs = [], created = [], printed = [], getenv_calls = [], clients_built = []\<rparr>"


section \<open>Properties\<close>

subsection \<open>The file as a whole\<close>

lemma request_statement_lines:
  "logical_lines 0 [] request_statement =
     [[(28, ''    request: CreateMessageRequest = CreateMessageRequest.builder() '' @ [backslash]),
       (29, ''        .receive_id_type(receive_id_type) '' @ [backslash]),
       (30, ''        .request_body(CreateMessageRequestBody.builder()''),
       (31, ''                      .receive_id(receive_id)''),
       (32, ''                      .msg_type('' @ dquote @ ''text'' @ dquote @ '')''),
       (33, ''                      .content(lark.JSON.marshal({'' @ dquote @ ''text'' @ dquote
              @ '': message}))''),
       (34, ''                      .build())'')],
      [(35, ''        .build()'')]]"
  by (simp add: request_statement_def backslash_def dquote_def blank_line_def)

lemma compile_fails: "compile_request_statement = Inl (IndentationError 35)"
  by (simp add: compile_request_statement_def request_statement_lines indentation_def
      first_line_def opens_block_def backslash_def)

text \<open>
  The statements of the main block, were they to run: the two lines are printed, no
  request is created and nothing is logged.
\<close>

lemma main_block_prints_two_lines:
  "printed (main_block w) = printed w @ [line_57, line_58] \<and>
   created (main_block w) = created w \<and> logs (main_block w) = logs w"
  by (simp add: main_block_def Let_def)

lemma exec_module_as_script:
  "printed (snd (exec_module sdk ''__main__'' environ w)) = printed w @ [line_57, line_58] \<and>
   created (snd (exec_module sdk ''__main__'' environ w)) = created w"
  by (simp add: exec_module_def module_body_def main_block_def Let_def)

text \<open>
  The module body checks neither credential: with both names unset it builds a client
  from two \<open>None\<close>s.
\<close>

lemma missing_credentials_build_a_client:
  assumes "load_dotenv sdk environ ''APP_ID'' = None"
    and "load_dotenv sdk environ ''APP_SECRET'' = None"
  shows "client (fst (module_body sdk environ w)) =
     \<lparr>app_id = Some None, app_secret = Some None, log_level = Some DEBUG\<rparr>"
  using assms by (simp add: module_body_def Client_builder_def Let_def)

text \<open>
  C4. Run directly, the script is to print exactly its two lines and to make no network
  call. The file does not get that far: the compiler rejects it, so the run ends in the
  error with nothing printed (and no request created).
\<close>

theorem script_run_prints_nothing:
  "fst (run_file sdk ''__main__'' environ w) = Inl (IndentationError 35) \<and>
   printed (snd (run_file sdk ''__main__'' environ w)) = printed w \<and>
   created (snd (run_file sdk ''__main__'' environ w)) = created w"
  by (simp add: run_file_def compile_fails)

text \<open>
  C5. The file is not well-formed Python. The statement that starts in line 28 ends with
  line 34, where its last bracket closes and no backslash follows; line 35, \<^verbatim>\<open>.build()\<close>,
  is a logical line of its own, indented deeper than the statement before it. The compiler
  rejects the file with an indentation error at line 35, so no statement of the file runs:
  the run leaves the world as it was and yields no module (no \<^verbatim>\<open>send_text_message\<close>, no
  main block), as a script and by import.
\<close>

theorem file_is_not_well_formed:
  "map (map fst) (logical_lines 0 [] request_statement) = [[28, 29, 30, 31, 32, 33, 34], [35]] \<and>
   scan Code 0 (''        .request_body(CreateMessageRequestBody.builder()'') = (1, False) \<and>
   scan Code 1 (''                      .build())'') = (0, False) \<and>
   last (logical_lines 0 [] request_statement) = [(35, ''        .build()'')] \<and>
   map indentation (logical_lines 0 [] request_statement) = [4, 8] \<and>
   compile_request_statement = Inl (IndentationError 35) \<and>
   run_file sdk name environ w = (Inl (IndentationError 35), w)"
  by (simp add: run_file_def compile_fails request_statement_lines indentation_def
      backslash_def)

lemma import_fails:
  "import_then sdk name environ use w = (Inl (IndentationError 35), w)"
  by (simp add: import_then_def run_file_def compile_fails)

text \<open>
  C1. Every call of \<^verbatim>\<open>send_text_message\<close> is to build a request whose body has \<open>msg_type\<close>
  \<^verbatim>\<open>"text"\<close> and the serialised message as content. The file as it stands builds none:
  whatever a caller would do with the module, its import ends in the compiler's error
  and no request is created.
\<close>

theorem no_request_is_built:
  "fst (import_then sdk name environ use w) = Inl (IndentationError 35) \<and>
   created (snd (import_then sdk name environ use w)) = created w"
  by (simp add: import_fails)

text \<open>
  C2. With a client that answers \<^verbatim>\<open>400\<close>, \<^verbatim>\<open>bad request\<close>, \<^verbatim>\<open>abc123\<close>, a call is to log
  one error entry and to return normally. The file as it stands does neither: the caller's
  import raises the compiler's error, and nothing is logged.
\<close>

theorem failing_response_is_never_logged:
  "fst (import_then (mock_sdk bad_request) name environ use w) = Inl (IndentationError 35) \<and>
   logs (snd (import_then (mock_sdk bad_request) name environ use w)) = logs w"
  by (simp add: import_fails)

text \<open>
  C3. With a client that answers with success and the payload \<^verbatim>\<open>{"message_id": "om_1"}\<close>,
  a call is to log one info entry and to return normally. The file as it stands does
  neither: the caller's import raises the compiler's error, and nothing is logged.
\<close>

theorem successful_response_is_never_logged:
  "fst (import_then (mock_sdk message_sent) name environ use w) = Inl (IndentationError 35) \<and>
   logs (snd (import_then (mock_sdk message_sent) name environ use w)) = logs w"
  by (simp add: import_fails)

text \<open>
  C6. The call \<^verbatim>\<open>send_text_message("chat_id", "oc_test", "hello")\<close> is to hand the client a
  request with these three values. The file as it stands hands the client nothing: with
  both credentials set and nothing done before, the caller's run ends in the compiler's
  error with no request created, whatever it would have called.
\<close>

theorem chat_id_hello_reaches_no_client:
  "import_then sdk name test_environ use quiet = (Inl (IndentationError 35), quiet) \<and>
   created (snd (import_then sdk name test_environ use quiet)) = []"
  by (simp add: import_fails quiet_def)

text \<open>
  C7. An exception of the client's call is to leave \<^verbatim>\<open>send_text_message\<close> uncaught. In the
  file as it stands the client is never called, so nothing of the transport is raised:
  with a client that raises on every call, the caller's run ends in the compiler's error
  and no call of the client is recorded.
\<close>

theorem client_is_never_called:
  "fst (import_then (raising_sdk e) name environ use w) = Inl (IndentationError 35) \<and>
   created (snd (import_then (raising_sdk e) name environ use w)) = created w"
  by (simp add: import_fails)

text \<open>
  C9. The credentials are to be read once each, and one client built, when the module
  loads. Loading the file as it stands, as a script or by import, reads no name from the
  environment, builds no client and yields no module.
\<close>

theorem credentials_are_never_read:
  "getenv_calls (snd (run_file sdk name environ w)) = getenv_calls w \<and>
   clients_built (snd (run_file sdk name environ w)) = clients_built w \<and>
   (\<forall>m. fst (run_file sdk name environ w) \<noteq> Inr m)"
  by (simp add: run_file_def compile_fails)

text \<open>
  C10. The arguments of a call are to reach the client as given, unchecked. In the file as
  it stands no argument reaches the client, checked or not: whatever call a caller would
  make, its run leaves the world as it was.
\<close>

theorem no_argument_reaches_the_client:
  "snd (import_then sdk name environ use w) = w"
  by (simp add: import_fails)

end
